theory Spec2Isabelle
  imports Complex_Main "HOL-Library.Word"
begin

section \<open>Data model of the annotation editor\<close>

text \<open>
  The editor is one Svelte component. Its script keeps the annotation list, the box being
  dragged, the selection and the three canvas contexts in component variables and stores,
  and reacts to mouse and keyboard events. The embedding passes that state explicitly.

  JavaScript numbers are IEEE doubles. Coordinates are modelled as exact reals (no
  rounding, no overflow); the one place where the non-finite values matter, the division
  by a canvas dimension, is modelled with an explicit type of JavaScript numbers below.
  Identifiers come from \<^verbatim>\<open>Date.now()\<close> and are integers; page numbers come from the
  numeric page selector and are modelled as natural numbers. Record fields carry a prefix
  where the source's field name (\<^verbatim>\<open>id\<close>, \<^verbatim>\<open>x\<close>, \<^verbatim>\<open>left\<close>, \<^verbatim>\<open>top\<close>) is too short or
  already a constant of HOL.
\<close>

type_synonym bytes = "8 word list"

datatype exn = Exn string

record AnnotationBox =
  box_id :: int
  box_x :: real
  box_y :: real
  box_page :: nat
  box_width :: real
  box_height :: real
  box_name :: string

record MouseEvent =
  clientX :: real
  clientY :: real

text \<open>The part of \<^verbatim>\<open>pdfCanvas.getBoundingClientRect()\<close> the handlers read.\<close>

record DOMRect =
  rect_left :: real
  rect_top :: real

record KeyboardEvent =
  key :: string
  shiftKey :: bool

text \<open>
  A loaded pdf.js document: \<^verbatim>\<open>getData()\<close> either yields the original bytes or rejects.
\<close>

record PDFDocumentProxy =
  getData :: "exn + bytes"
  numPages :: nat

text \<open>
  A 2d context is only ever tested for being null; what is painted on it is not modelled.
\<close>

datatype CanvasRenderingContext2D = Context2D

record EditorState =
  pdfDocument :: "PDFDocumentProxy option"
  currentPage :: nat
  annotations :: "AnnotationBox list"
  isDrawing :: bool
  currentBox :: "AnnotationBox option"
  selectedAnnotationId :: "int option"
  pdfContext :: "CanvasRenderingContext2D option"
  annotationContext :: "CanvasRenderingContext2D option"
  drawingContext :: "CanvasRenderingContext2D option"
  canvasWidth :: nat
  canvasHeight :: nat
  pdfCanvas2d :: "CanvasRenderingContext2D option"
  annotationCanvas2d :: "CanvasRenderingContext2D option"
  drawingCanvas2d :: "CanvasRenderingContext2D option"


section \<open>Rendering a page\<close>

text \<open>
  \<^verbatim>\<open>canvas.getContext("2d")\<close>: an element that has made a 2d context returns that same
  context on every later call; an element that has none tries to make one, which may fail
  and give null. The first argument is what the element holds, the second the outcome of
  making a context should that be needed.
\<close>

definition getContext2d ::
  "CanvasRenderingContext2D option \<Rightarrow> CanvasRenderingContext2D option \<Rightarrow>
     CanvasRenderingContext2D option" where
  "getContext2d held made = (case held of Some ctx \<Rightarrow> Some ctx | None \<Rightarrow> made)"

text \<open>
  What \<^verbatim>\<open>renderPage\<close> does to the state, for a page the document has: the canvases take
  the size of the scaled viewport and the three contexts are fetched; if one of them is
  null, the three variables are reset to null. The arguments are the viewport size in
  pixels and, for the page, annotation and drawing canvas in turn, the outcome of making a
  context where the element has none yet.
\<close>

definition renderPage ::
  "nat \<Rightarrow> nat \<Rightarrow> CanvasRenderingContext2D option \<Rightarrow> CanvasRenderingContext2D option \<Rightarrow>
     CanvasRenderingContext2D option \<Rightarrow> EditorState \<Rightarrow> EditorState" where
  "renderPage viewportWidth viewportHeight pdfMade annotationMade drawingMade st =
     (case pdfDocument st of
        None \<Rightarrow> st
      | Some pdf \<Rightarrow>
          (let pdfCtx = getContext2d (pdfCanvas2d st) pdfMade;
               annotationCtx = getContext2d (annotationCanvas2d st) annotationMade;
               drawingCtx = getContext2d (drawingCanvas2d st) drawingMade;
               st1 = st\<lparr>canvasWidth := viewportWidth, canvasHeight := viewportHeight,
                         pdfCanvas2d := pdfCtx, annotationCanvas2d := annotationCtx,
                         drawingCanvas2d := drawingCtx,
                         pdfContext := pdfCtx, annotationContext := annotationCtx,
                         drawingContext := drawingCtx\<rparr>
           in if pdfCtx = None \<or> drawingCtx = None \<or> annotationCtx = None
              then st1\<lparr>pdfContext := None, drawingContext := None, annotationContext := None\<rparr>
              else st1))"

text \<open>
  \<^verbatim>\<open>loadPdf\<close> stores the loaded document and renders page 1. \<^verbatim>\<open>onPageChange\<close> follows the
  page input, which is bound to \<^verbatim>\<open>currentPage\<close>: the page is rendered when a document is
  loaded and the number is one of its pages.
\<close>

definition loadPdf ::
  "PDFDocumentProxy \<Rightarrow> nat \<Rightarrow> nat \<Rightarrow> CanvasRenderingContext2D option \<Rightarrow>
     CanvasRenderingContext2D option \<Rightarrow> CanvasRenderingContext2D option \<Rightarrow>
     EditorState \<Rightarrow> EditorState" where
  "loadPdf loadedPdf viewportWidth viewportHeight pdfMade annotationMade drawingMade st =
     renderPage viewportWidth viewportHeight pdfMade annotationMade drawingMade
       (st\<lparr>pdfDocument := Some loadedPdf\<rparr>)"

definition onPageChange ::
  "nat \<Rightarrow> nat \<Rightarrow> nat \<Rightarrow> CanvasRenderingContext2D option \<Rightarrow>
     CanvasRenderingContext2D option \<Rightarrow> CanvasRenderingContext2D option \<Rightarrow>
     EditorState \<Rightarrow> EditorState" where
  "onPageChange pageNumber viewportWidth viewportHeight pdfMade annotationMade drawingMade st =
     (let st1 = st\<lparr>currentPage := pageNumber\<rparr>
      in case pdfDocument st1 of
           None \<Rightarrow> st1
         | Some pdf \<Rightarrow>
             if 1 \<le> pageNumber \<and> pageNumber \<le> numPages pdf
             then renderPage viewportWidth viewportHeight pdfMade annotationMade drawingMade st1
             else st1)"

section \<open>Drawing a box\<close>

text \<open>
  \<^verbatim>\<open>startDrawingBox\<close>: the box starts at the pointer position relative to the canvas, on
  the page shown, with zero extents. The second argument is the bounding rectangle read
  during the event, the third the value of \<^verbatim>\<open>Date.now()\<close>.
\<close>

definition startDrawingBox :: "MouseEvent \<Rightarrow> DOMRect \<Rightarrow> int \<Rightarrow> EditorState \<Rightarrow> EditorState" where
  "startDrawingBox event rect now st =
     (if drawingContext st = None \<or> pdfContext st = None then st
      else st\<lparr>isDrawing := True,
              currentBox := Some \<lparr>box_id = now,
                                   box_x = clientX event - rect_left rect,
                                   box_y = clientY event - rect_top rect,
                                   box_page = currentPage st,
                                   box_width = 0,
                                   box_height = 0,
                                   box_name = ''''\<rparr>\<rparr>)"

text \<open>
  \<^verbatim>\<open>updateDrawingBox\<close>: width and height become the signed distance of the pointer from the
  box's origin.
\<close>

definition updateDrawingBox :: "MouseEvent \<Rightarrow> DOMRect \<Rightarrow> EditorState \<Rightarrow> EditorState" where
  "updateDrawingBox event rect st =
     (if \<not> isDrawing st \<or> drawingContext st = None \<or> pdfContext st = None then st
      else
        (let currentX = clientX event - rect_left rect;
             currentY = clientY event - rect_top rect
         in case currentBox st of
              None \<Rightarrow> st
            | Some box \<Rightarrow>
                st\<lparr>currentBox := Some (box\<lparr>box_width := currentX - box_x box,
                                            box_height := currentY - box_y box\<rparr>)\<rparr>))"

text \<open>
  \<^verbatim>\<open>endDrawingBox\<close>, the handler of both \<^verbatim>\<open>mouseup\<close> and \<^verbatim>\<open>mouseout\<close>: the box is appended
  as it is when both extents are non-zero, and the drag ends either way.
\<close>

definition endDrawingBox :: "EditorState \<Rightarrow> EditorState" where
  "endDrawingBox st =
     (if \<not> isDrawing st \<or> currentBox st = None \<or> pdfContext st = None
         \<or> drawingContext st = None \<or> annotationContext st = None then st
      else
        (case currentBox st of
           None \<Rightarrow> st
         | Some box \<Rightarrow>
             st\<lparr>annotations :=
                  (if box_width box \<noteq> 0 \<and> box_height box \<noteq> 0
                   then annotations st @ [box] else annotations st),
                isDrawing := False,
                currentBox := None\<rparr>))"

text \<open>
  A whole drag: pointer down, any number of pointer moves (each with the rectangle read at
  that event), then pointer up or pointer out.
\<close>

definition drag ::
  "EditorState \<Rightarrow> MouseEvent \<Rightarrow> DOMRect \<Rightarrow> int \<Rightarrow> (MouseEvent \<times> DOMRect) list \<Rightarrow> EditorState" where
  "drag st down rect now moves =
     endDrawingBox
       (foldl (\<lambda>s (event, r). updateDrawingBox event r s) (startDrawingBox down rect now st) moves)"

section \<open>Selection, renaming, removal and keyboard control\<close>

definition onSelect :: "int \<Rightarrow> EditorState \<Rightarrow> EditorState" where
  "onSelect i st = st\<lparr>selectedAnnotationId := Some i\<rparr>"

definition onEdit :: "int \<Rightarrow> string \<Rightarrow> EditorState \<Rightarrow> EditorState" where
  "onEdit i name st =
     st\<lparr>annotations :=
          map (\<lambda>box. if box_id box = i then box\<lparr>box_name := name\<rparr> else box) (annotations st)\<rparr>"

definition removeAnnotation :: "int \<Rightarrow> EditorState \<Rightarrow> EditorState" where
  "removeAnnotation i st =
     st\<lparr>annotations := filter (\<lambda>box. box_id box \<noteq> i) (annotations st),
        selectedAnnotationId := None\<rparr>"

text \<open>The \<^verbatim>\<open>switch\<close> on the key inside \<^verbatim>\<open>handleKeyboardBoxControl\<close>.\<close>

definition moveBox :: "string \<Rightarrow> real \<Rightarrow> AnnotationBox \<Rightarrow> AnnotationBox" where
  "moveBox k moveAmount box =
     (if k = ''ArrowLeft'' then box\<lparr>box_x := box_x box - moveAmount\<rparr>
      else if k = ''ArrowRight'' then box\<lparr>box_x := box_x box + moveAmount\<rparr>
      else if k = ''ArrowUp'' then box\<lparr>box_y := box_y box - moveAmount\<rparr>
      else if k = ''ArrowDown'' then box\<lparr>box_y := box_y box + moveAmount\<rparr>
      else box)"

text \<open>
  \<^verbatim>\<open>handleKeyboardBoxControl\<close>. The test \<^verbatim>\<open>!$selectedAnnotationId\<close> holds for \<^verbatim>\<open>null\<close> and
  for the number 0.
\<close>

definition handleKeyboardBoxControl :: "KeyboardEvent \<Rightarrow> EditorState \<Rightarrow> EditorState" where
  "handleKeyboardBoxControl event st =
     (case selectedAnnotationId st of
        None \<Rightarrow> st
      | Some sel \<Rightarrow>
          if sel = 0 \<or> pdfContext st = None \<or> drawingContext st = None then st
          else
            (case find (\<lambda>box. box_id box = sel) (annotations st) of
               None \<Rightarrow> st
             | Some selectedBox \<Rightarrow>
                 (let moveAmount = (if shiftKey event then 10 else 1)
                  in st\<lparr>annotations :=
                          map (\<lambda>box. if box_id box = sel then moveBox (key event) moveAmount box
                                      else box)
                            (annotations st)\<rparr>)))"

section \<open>Runs of the editor\<close>

text \<open>
  What can happen to the mounted component: a PDF file is chosen and loaded, the page input
  changes, the pointer goes down, moves, goes up or leaves the canvas, a key is pressed, an
  annotation in the side panel is selected, renamed or removed. (The download button is not
  listed: the export writes no part of the state.) Every event carries what the handler
  reads from its surroundings: the viewport of the page, the outcome of making a canvas
  context, the bounding rectangle, the clock.
\<close>

datatype Event =
    FileChange PDFDocumentProxy nat nat "CanvasRenderingContext2D option"
      "CanvasRenderingContext2D option" "CanvasRenderingContext2D option"
  | PageInput nat nat nat "CanvasRenderingContext2D option"
      "CanvasRenderingContext2D option" "CanvasRenderingContext2D option"
  | MouseDown MouseEvent DOMRect int
  | MouseMove MouseEvent DOMRect
  | MouseUp
  | MouseOut
  | KeyDown KeyboardEvent
  | Select int
  | Edit int string
  | Remove int

fun step :: "Event \<Rightarrow> EditorState \<Rightarrow> EditorState" where
  "step (FileChange loadedPdf w h pdfMade annotationMade drawingMade) st =
     loadPdf loadedPdf w h pdfMade annotationMade drawingMade st"
| "step (PageInput pageNumber w h pdfMade annotationMade drawingMade) st =
     onPageChange pageNumber w h pdfMade annotationMade drawingMade st"
| "step (MouseDown event rect now) st = startDrawingBox event rect now st"
| "step (MouseMove event rect) st = updateDrawingBox event rect st"
| "step MouseUp st = endDrawingBox st"
| "step MouseOut st = endDrawingBox st"
| "step (KeyDown event) st = handleKeyboardBoxControl event st"
| "step (Select i) st = onSelect i st"
| "step (Edit i name) st = onEdit i name st"
| "step (Remove i) st = removeAnnotation i st"




section \<open>JavaScript numbers at the coordinate conversion\<close>

text \<open>
  The conversion divides by the canvas dimensions. In JavaScript a division by zero does
  not raise: it yields \<^verbatim>\<open>Infinity\<close>, \<^verbatim>\<open>-Infinity\<close> or \<^verbatim>\<open>NaN\<close>, and these values
  propagate through the following multiplication and subtraction. HOL's \<open>x / 0 = 0\<close>
  would hide that, so the results of the conversion live in a type with the three
  non-finite values. Finite values are exact reals. A zero divisor is the canvas
  dimension (an unsigned integer), hence positive zero.
\<close>

datatype jsnum = Fin real | PosInfinity | NegInfinity | NaN

fun isFinite :: "jsnum \<Rightarrow> bool" where
  "isFinite (Fin a) = True"
| "isFinite PosInfinity = False"
| "isFinite NegInfinity = False"
| "isFinite NaN = False"

definition jsdiv :: "real \<Rightarrow> real \<Rightarrow> jsnum" where
  "jsdiv a b =
     (if b \<noteq> 0 then Fin (a / b)
      else if a = 0 then NaN
      else if 0 < a then PosInfinity
      else NegInfinity)"

fun jsmul :: "jsnum \<Rightarrow> real \<Rightarrow> jsnum" where
  "jsmul (Fin a) w = Fin (a * w)"
| "jsmul PosInfinity w = (if 0 < w then PosInfinity else if w < 0 then NegInfinity else NaN)"
| "jsmul NegInfinity w = (if 0 < w then NegInfinity else if w < 0 then PosInfinity else NaN)"
| "jsmul NaN w = NaN"

fun jssub :: "jsnum \<Rightarrow> jsnum \<Rightarrow> jsnum" where
  "jssub (Fin a) (Fin b) = Fin (a - b)"
| "jssub NaN b = NaN"
| "jssub a NaN = NaN"
| "jssub (Fin a) PosInfinity = NegInfinity"
| "jssub (Fin a) NegInfinity = PosInfinity"
| "jssub PosInfinity PosInfinity = NaN"
| "jssub PosInfinity b = PosInfinity"
| "jssub NegInfinity NegInfinity = NaN"
| "jssub NegInfinity b = NegInfinity"

section \<open>Canvas space to PDF space\<close>

text \<open>
  The two lines \<^verbatim>\<open>pdfX = (canvasX / drawingCanvas.width) * pdfWidth\<close> and
  \<^verbatim>\<open>pdfY = pdfHeight - (canvasY / drawingCanvas.height) * pdfHeight\<close>, written once in the
  \<^verbatim>\<open>mousemove\<close> handler of the coordinate readout and once in the export.
\<close>

definition toPdfSpace :: "real \<Rightarrow> real \<Rightarrow> nat \<Rightarrow> nat \<Rightarrow> real \<Rightarrow> real \<Rightarrow> jsnum \<times> jsnum" where
  "toPdfSpace canvasX canvasY width height pdfWidth pdfHeight =
     (jsmul (jsdiv canvasX (real width)) pdfWidth,
      jssub (Fin pdfHeight) (jsmul (jsdiv canvasY (real height)) pdfHeight))"

text \<open>The options object handed to \<^verbatim>\<open>textField.addToPage\<close>.\<close>

record FieldAppearanceOptions =
  opt_x :: jsnum
  opt_y :: jsnum
  opt_width :: jsnum
  opt_height :: jsnum
  borderWidth :: real
  backgroundColor :: "string option"

text \<open>The body of the inner export loop from \<^verbatim>\<open>canvasX\<close> to the options object.\<close>

definition boxToPdfRect :: "AnnotationBox \<Rightarrow> nat \<Rightarrow> nat \<Rightarrow> real \<Rightarrow> real \<Rightarrow> FieldAppearanceOptions" where
  "boxToPdfRect box width height pdfWidth pdfHeight =
     (let canvasX = box_x box;
          canvasY = box_y box;
          (pdfX, pdfY) = toPdfSpace canvasX canvasY width height pdfWidth pdfHeight;
          pdfBoxWidth = jsmul (jsdiv (box_width box) (real width)) pdfWidth;
          pdfBoxHeight = jsmul (jsdiv (box_height box) (real height)) pdfHeight
      in \<lparr>opt_x = pdfX,
          opt_y = jssub pdfY pdfBoxHeight,
          opt_width = pdfBoxWidth,
          opt_height = pdfBoxHeight,
          borderWidth = 0,
          backgroundColor = None\<rparr>)"

section \<open>Field names\<close>

text \<open>
  The template literal prints the id with \<^verbatim>\<open>Number::toString\<close>, which is the plain decimal
  numeral for every integer of magnitude below \<open>10^21\<close> (a \<^verbatim>\<open>Date.now()\<close> value is about
  \<open>10^12\<close>).
\<close>

fun natToString :: "nat \<Rightarrow> string" where
  "natToString n =
     (if n < 10 then [''0123456789'' ! n]
      else natToString (n div 10) @ [''0123456789'' ! (n mod 10)])"

declare natToString.simps [simp del]

definition numberToString :: "int \<Rightarrow> string" where
  "numberToString i = (if i < 0 then ''-'' @ natToString (nat (- i)) else natToString (nat i))"

text \<open>
  Reading a decimal numeral: the value of a non-empty string of digits, nothing for any
  other string.
\<close>

definition isDigit :: "char \<Rightarrow> bool" where
  "isDigit c = (48 \<le> (of_char c :: nat) \<and> (of_char c :: nat) \<le> 57)"

definition decimalValue :: "string \<Rightarrow> nat option" where
  "decimalValue s =
     (if s \<noteq> [] \<and> list_all isDigit s
      then Some (foldl (\<lambda>n c. 10 * n + (of_char c - 48)) 0 s) else None)"

text \<open>\<^verbatim>\<open>box.name || `Field_${box.id}`\<close>: the empty string is the only falsy string.\<close>

definition fieldName :: "AnnotationBox \<Rightarrow> string" where
  "fieldName box =
     (if box_name box \<noteq> '''' then box_name box else ''Field_'' @ numberToString (box_id box))"

section \<open>Grouping by page\<close>

text \<open>
  \<^verbatim>\<open>pageAnnotationMap\<close> is a plain object used as a dictionary from page number to array.
  It is modelled as an association list in order of first insertion, one loop iteration
  being \<open>groupStep\<close>.
\<close>

definition groupStep ::
  "(nat \<times> AnnotationBox list) list \<Rightarrow> AnnotationBox \<Rightarrow> (nat \<times> AnnotationBox list) list" where
  "groupStep m box =
     (if map_of m (box_page box) = None then m @ [(box_page box, [box])]
      else map (\<lambda>(p, boxes). if p = box_page box then (p, boxes @ [box]) else (p, boxes)) m)"

definition pageAnnotationMap :: "AnnotationBox list \<Rightarrow> (nat \<times> AnnotationBox list) list" where
  "pageAnnotationMap boxes = foldl groupStep [] boxes"

text \<open>
  \<^verbatim>\<open>Object.entries\<close> lists the keys that are array indices (integers below \<open>2^32 - 1\<close>) in
  ascending order first, then the other keys in insertion order.
\<close>

definition objectEntries :: "(nat \<times> 'v) list \<Rightarrow> (nat \<times> 'v) list" where
  "objectEntries m =
     sort_key fst (filter (\<lambda>(p, v). p < 4294967295) m) @
     filter (\<lambda>(p, v). \<not> p < 4294967295) m"

definition batches :: "AnnotationBox list \<Rightarrow> (nat \<times> AnnotationBox list) list" where
  "batches boxes = objectEntries (pageAnnotationMap boxes)"

section \<open>Export\<close>

text \<open>
  pdf-lib is outside the repository. The export is modelled over any value of the record
  below, which holds the six operations the export calls; each may throw. The document is
  passed explicitly since creating and placing a field change it. \<^verbatim>\<open>createTextField\<close>
  stands for \<^verbatim>\<open>pdfDoc.getForm().createTextField(name)\<close>.
\<close>

record ('doc, 'page, 'field) PDFLib =
  load :: "bytes \<Rightarrow> exn + 'doc"
  getPage :: "'doc \<Rightarrow> int \<Rightarrow> exn + 'page"
  getSize :: "'doc \<Rightarrow> 'page \<Rightarrow> exn + (real \<times> real)"
  createTextField :: "'doc \<Rightarrow> string \<Rightarrow> exn + ('field \<times> 'doc)"
  addToPage :: "'doc \<Rightarrow> 'field \<Rightarrow> 'page \<Rightarrow> FieldAppearanceOptions \<Rightarrow> exn + 'doc"
  save :: "'doc \<Rightarrow> exn + bytes"

text \<open>The inner loop, over the boxes of one page.\<close>

fun placeBoxes ::
  "('doc, 'page, 'field) PDFLib \<Rightarrow> nat \<Rightarrow> nat \<Rightarrow> 'page \<Rightarrow> real \<Rightarrow> real \<Rightarrow>
     AnnotationBox list \<Rightarrow> 'doc \<Rightarrow> exn + 'doc" where
  "placeBoxes lib width height page pdfWidth pdfHeight [] pdfDoc = Inr pdfDoc"
| "placeBoxes lib width height page pdfWidth pdfHeight (box # boxes) pdfDoc =
     (case createTextField lib pdfDoc (fieldName box) of
        Inl e \<Rightarrow> Inl e
      | Inr (textField, pdfDoc1) \<Rightarrow>
          (case addToPage lib pdfDoc1 textField page
                  (boxToPdfRect box width height pdfWidth pdfHeight) of
             Inl e \<Rightarrow> Inl e
           | Inr pdfDoc2 \<Rightarrow> placeBoxes lib width height page pdfWidth pdfHeight boxes pdfDoc2))"

text \<open>
  The outer loop, over the entries of the map. The key is a decimal string; \<^verbatim>\<open>parseInt\<close>
  gives the page number back, and the page index is one less.
\<close>

fun placePages ::
  "('doc, 'page, 'field) PDFLib \<Rightarrow> nat \<Rightarrow> nat \<Rightarrow> (nat \<times> AnnotationBox list) list \<Rightarrow>
     'doc \<Rightarrow> exn + 'doc" where
  "placePages lib width height [] pdfDoc = Inr pdfDoc"
| "placePages lib width height ((pageNum, boxes) # entries) pdfDoc =
     (case getPage lib pdfDoc (int pageNum - 1) of
        Inl e \<Rightarrow> Inl e
      | Inr page \<Rightarrow>
          (case getSize lib pdfDoc page of
             Inl e \<Rightarrow> Inl e
           | Inr (pdfWidth, pdfHeight) \<Rightarrow>
               (case placeBoxes lib width height page pdfWidth pdfHeight boxes pdfDoc of
                  Inl e \<Rightarrow> Inl e
                | Inr pdfDoc1 \<Rightarrow> placePages lib width height entries pdfDoc1)))"

text \<open>
  \<^verbatim>\<open>parseInt\<close> on a key of the map: the value of the leading decimal digits, \<^verbatim>\<open>NaN\<close>
  (here \<open>None\<close>) when there is none. The keys are printed page numbers, so it returns the
  page number (\<open>parseInt_natToString\<close> below); \<open>placePages\<close> uses the number directly.
\<close>

definition parseInt :: "string \<Rightarrow> nat option" where
  "parseInt s =
     (let digits = takeWhile isDigit s
      in if digits = [] then None
         else Some (foldl (\<lambda>n c. 10 * n + (of_char c - 48)) 0 digits))"

text \<open>The \<^verbatim>\<open>try\<close> block after the test for a loaded document, up to \<^verbatim>\<open>pdfDoc.save()\<close>.\<close>

definition exportPdf ::
  "('doc, 'page, 'field) PDFLib \<Rightarrow> EditorState \<Rightarrow> PDFDocumentProxy \<Rightarrow> exn + bytes" where
  "exportPdf lib st proxy =
     (case getData proxy of
        Inl e \<Rightarrow> Inl e
      | Inr pdfBytes \<Rightarrow>
          (case load lib pdfBytes of
             Inl e \<Rightarrow> Inl e
           | Inr pdfDoc \<Rightarrow>
               (case placePages lib (canvasWidth st) (canvasHeight st)
                       (objectEntries (pageAnnotationMap (annotations st))) pdfDoc of
                  Inl e \<Rightarrow> Inl e
                | Inr pdfDoc1 \<Rightarrow> save lib pdfDoc1)))"

text \<open>What the user and the console see of an export.\<close>

datatype effect =
    ConsoleError string exn
  | Alert string
  | Download string bytes

text \<open>
  \<^verbatim>\<open>addFieldsAndDownload\<close>: nothing happens without a document; a thrown error is logged
  and alerted; otherwise the saved bytes are downloaded as \<^verbatim>\<open>annotated.pdf\<close>. The editor
  state is returned as well: the export writes none of it.
\<close>

definition addFieldsAndDownload ::
  "('doc, 'page, 'field) PDFLib \<Rightarrow> EditorState \<Rightarrow> EditorState \<times> effect list" where
  "addFieldsAndDownload lib st =
     (case pdfDocument st of
        None \<Rightarrow> (st, [])
      | Some proxy \<Rightarrow>
          (case exportPdf lib st proxy of
             Inl error \<Rightarrow>
               (st, [ConsoleError ''Error creating PDF:'' error,
                     Alert ''Error creating PDF. Check console for details.''])
           | Inr modifiedPdfBytes \<Rightarrow> (st, [Download ''annotated.pdf'' modifiedPdfBytes])))"

section \<open>Sample states\<close>

text \<open>An editor showing page 1 of a loaded document on a 900 by 1200 canvas, nothing drawn.\<close>

definition sampleDocument :: PDFDocumentProxy where
  "sampleDocument = \<lparr>getData = Inr [37, 80, 68, 70], numPages = 3\<rparr>"

definition readyEditor :: EditorState where
  "readyEditor =
     \<lparr>pdfDocument = Some sampleDocument, currentPage = 1, annotations = [],
      isDrawing = False, currentBox = None, selectedAnnotationId = None,
      pdfContext = Some Context2D, annotationContext = Some Context2D,
      drawingContext = Some Context2D, canvasWidth = 900, canvasHeight = 1200,
      pdfCanvas2d = Some Context2D, annotationCanvas2d = Some Context2D,
      drawingCanvas2d = Some Context2D\<rparr>"

definition sampleBox :: "int \<Rightarrow> nat \<Rightarrow> string \<Rightarrow> AnnotationBox" where
  "sampleBox i p n =
     \<lparr>box_id = i, box_x = 90, box_y = 120, box_page = p, box_width = 180, box_height = 60,
      box_name = n\<rparr>"

definition origin :: DOMRect where
  "origin = \<lparr>rect_left = 0, rect_top = 0\<rparr>"

definition pointer :: "real \<Rightarrow> real \<Rightarrow> MouseEvent" where
  "pointer px py = \<lparr>clientX = px, clientY = py\<rparr>"


text \<open>
  A small stand-in for pdf-lib, to run the export on concrete inputs: a document of three
  600 by 800 pages that records the fields placed on it and, as pdf-lib does, refuses a
  second field of the same name and a page index out of range. The theorems below hold for
  every library value; only the concrete runs use this one.
\<close>

record SampleDoc =
  doc_pages :: "(real \<times> real) list"
  doc_fields :: "(string \<times> nat \<times> FieldAppearanceOptions) list"

definition sampleLib :: "(SampleDoc, nat, string) PDFLib" where
  "sampleLib =
     \<lparr>load = (\<lambda>pdfBytes. if pdfBytes = [] then Inl (Exn ''no PDF header'')
                else Inr \<lparr>doc_pages = [(600, 800), (600, 800), (600, 800)], doc_fields = []\<rparr>),
      getPage = (\<lambda>pdfDoc index. if 0 \<le> index \<and> index < int (length (doc_pages pdfDoc))
                then Inr (nat index) else Inl (Exn ''index out of range'')),
      getSize = (\<lambda>pdfDoc page. if page < length (doc_pages pdfDoc)
                then Inr (doc_pages pdfDoc ! page) else Inl (Exn ''no such page'')),
      createTextField = (\<lambda>pdfDoc name. if name \<in> set (map fst (doc_fields pdfDoc))
                then Inl (Exn ''a field with this name exists'') else Inr (name, pdfDoc)),
      addToPage = (\<lambda>pdfDoc textField page options.
                Inr (pdfDoc\<lparr>doc_fields := doc_fields pdfDoc @ [(textField, page, options)]\<rparr>)),
      save = (\<lambda>pdfDoc. Inr (replicate (length (doc_fields pdfDoc)) 1))\<rparr>"

section \<open>The drag and the store\<close>

text \<open>
  Pointer moves only ever replace the extents of the box under construction: after any
  number of them the box has the origin it started with and the signed distance of the
  last pointer position from it.
\<close>

lemma foldl_updateDrawingBox:
  assumes "isDrawing s" and "drawingContext s \<noteq> None" and "pdfContext s \<noteq> None"
    and "currentBox s = Some b"
  shows "foldl (\<lambda>s (event, r). updateDrawingBox event r s) s moves =
         s\<lparr>currentBox := Some
             (if moves = [] then b
              else b\<lparr>box_width :=
                        clientX (fst (last moves)) - rect_left (snd (last moves)) - box_x b,
                      box_height :=
                        clientY (fst (last moves)) - rect_top (snd (last moves)) - box_y b\<rparr>)\<rparr>"
proof (induction moves rule: rev_induct)
  case Nil
  from assms(4) show ?case by simp
next
  case (snoc m ms)
  obtain event r where m: "m = (event, r)" by (cases m)
  let ?f = "\<lambda>s (event, r). updateDrawingBox event r s"
  have "foldl ?f s (ms @ [m]) = updateDrawingBox event r (foldl ?f s ms)"
    by (simp add: m)
  also have "\<dots> = s\<lparr>currentBox := Some
      (b\<lparr>box_width := clientX event - rect_left r - box_x b,
         box_height := clientY event - rect_top r - box_y b\<rparr>)\<rparr>"
    unfolding snoc.IH using assms(1-3) by (auto simp: updateDrawingBox_def Let_def)
  finally show ?case by (simp add: m)
qed

text \<open>Without the three contexts (no page rendered) a drag changes nothing in the store.\<close>

lemma drag_not_ready:
  assumes "pdfContext st = None \<or> drawingContext st = None \<or> annotationContext st = None"
  shows "annotations (drag st down rect now moves) = annotations st"
proof -
  let ?f = "\<lambda>s (event, r). updateDrawingBox event r s"
  have keep: "annotations (foldl ?f s moves) = annotations s" for s
    by (induction moves arbitrary: s)
      (auto simp: updateDrawingBox_def Let_def split: option.splits)
  have ctx: "pdfContext (foldl ?f s moves) = pdfContext s
      \<and> drawingContext (foldl ?f s moves) = drawingContext s
      \<and> annotationContext (foldl ?f s moves) = annotationContext s" for s
    by (induction moves arbitrary: s)
      (auto simp: updateDrawingBox_def Let_def split: option.splits)
  show ?thesis
    using assms unfolding drag_def
    by (auto simp: endDrawingBox_def keep ctx startDrawingBox_def split: option.splits)
qed

text \<open>
  C1 (as the code has it): on a rendered page, a drag whose last pointer position differs
  from the pointer-down position in both coordinates appends exactly one annotation. Its
  origin is the pointer-down point and its width and height are the signed distances of
  the last pointer position from that point: nothing is normalised at commit, so the
  extents are negative for a drag to the left or upwards.
\<close>

theorem drag_commits_signed_box:
  assumes "pdfContext st \<noteq> None" and "drawingContext st \<noteq> None"
    and "annotationContext st \<noteq> None"
    and "moves \<noteq> []" and "last moves = (up, r)"
    and "clientX up - rect_left r \<noteq> clientX down - rect_left rect"
    and "clientY up - rect_top r \<noteq> clientY down - rect_top rect"
  shows "annotations (drag st down rect now moves) =
         annotations st @
           [\<lparr>box_id = now,
             box_x = clientX down - rect_left rect,
             box_y = clientY down - rect_top rect,
             box_page = currentPage st,
             box_width = (clientX up - rect_left r) - (clientX down - rect_left rect),
             box_height = (clientY up - rect_top r) - (clientY down - rect_top rect),
             box_name = ''''\<rparr>]"
proof -
  let ?s = "startDrawingBox down rect now st"
  obtain b where b: "currentBox ?s = Some b"
    "b = \<lparr>box_id = now,
          box_x = clientX down - rect_left rect,
          box_y = clientY down - rect_top rect,
          box_page = currentPage st,
          box_width = 0, box_height = 0, box_name = ''''\<rparr>"
    using assms(1,2) by (auto simp: startDrawingBox_def)
  have s: "isDrawing ?s" "drawingContext ?s \<noteq> None" "pdfContext ?s \<noteq> None"
    "annotationContext ?s \<noteq> None" "annotations ?s = annotations st"
    using assms(1-3) by (auto simp: startDrawingBox_def)
  show ?thesis
    unfolding drag_def foldl_updateDrawingBox [OF s(1-3) b(1)]
    using assms(4-7) s b by (simp add: endDrawingBox_def)
qed

text \<open>A drag down and to the right, from (40, 60) through (50, 70) to (100, 100).\<close>

theorem drag_commits_signed_box_witness:
  "annotations (drag readyEditor (pointer 40 60) origin 1700000000000
      [(pointer 50 70, origin), (pointer 100 100, origin)]) =
     [\<lparr>box_id = 1700000000000, box_x = 40, box_y = 60, box_page = 1, box_width = 60,
       box_height = 40, box_name = ''''\<rparr>]"
  using drag_commits_signed_box
    [of readyEditor "[(pointer 50 70, origin), (pointer 100 100, origin)]"
      "pointer 100 100" origin "pointer 40 60" origin 1700000000000]
  by (simp add: readyEditor_def pointer_def origin_def)

text \<open>
  C1 as stated fails: the same rectangle dragged up and to the left, from (100, 100) to
  (40, 60), is stored with origin (100, 100), its bottom-right corner, and extents
  \<open>-60\<close> and \<open>-40\<close>.
\<close>

theorem drag_up_left_counterexample:
  "map (\<lambda>box. (box_x box, box_y box, box_width box, box_height box))
     (annotations
       (drag readyEditor (pointer 100 100) origin 1700000000000 [(pointer 40 60, origin)]))
   = [(100, 100, - 60, - 40)]"
  by (simp add: drag_def startDrawingBox_def updateDrawingBox_def endDrawingBox_def
      readyEditor_def pointer_def origin_def)

text \<open>
  C3: ending a drag whose box has zero width or zero height commits nothing. The store and
  the selection are as before, the handler returns a state (there is no error to raise),
  and, the page being rendered, the drag is over: no box is under construction any more.
\<close>

theorem endDrawingBox_zero_extent:
  assumes "currentBox st = Some box" and "box_width box = 0 \<or> box_height box = 0"
  shows "annotations (endDrawingBox st) = annotations st
     \<and> selectedAnnotationId (endDrawingBox st) = selectedAnnotationId st
     \<and> (isDrawing st \<and> pdfContext st \<noteq> None \<and> drawingContext st \<noteq> None
          \<and> annotationContext st \<noteq> None
        \<longrightarrow> \<not> isDrawing (endDrawingBox st) \<and> currentBox (endDrawingBox st) = None)"
  using assms by (auto simp: endDrawingBox_def)

text \<open>A click at (100, 100), and a horizontal drag from there to (150, 100).\<close>

theorem endDrawingBox_zero_extent_witness:
  "annotations (endDrawingBox (startDrawingBox (pointer 100 100) origin 1700000000000 readyEditor))
     = []
   \<and> \<not> isDrawing
        (endDrawingBox (startDrawingBox (pointer 100 100) origin 1700000000000 readyEditor))
   \<and> currentBox
        (endDrawingBox (startDrawingBox (pointer 100 100) origin 1700000000000 readyEditor))
       = None
   \<and> annotations
        (endDrawingBox
          (updateDrawingBox (pointer 150 100) origin
            (startDrawingBox (pointer 100 100) origin 1700000000000 readyEditor)))
       = []"
  using endDrawingBox_zero_extent
    [of "startDrawingBox (pointer 100 100) origin 1700000000000 readyEditor"
        "\<lparr>box_id = 1700000000000, box_x = 100, box_y = 100, box_page = 1, box_width = 0,
          box_height = 0, box_name = ''''\<rparr>"]
    endDrawingBox_zero_extent
    [of "updateDrawingBox (pointer 150 100) origin
           (startDrawingBox (pointer 100 100) origin 1700000000000 readyEditor)"
        "\<lparr>box_id = 1700000000000, box_x = 100, box_y = 100, box_page = 1, box_width = 50,
          box_height = 0, box_name = ''''\<rparr>"]
  by (simp add: startDrawingBox_def updateDrawingBox_def readyEditor_def pointer_def
      origin_def)

text \<open>
  The same for whole drags, in every state: a click, and a drag that ends on the vertical
  or the horizontal line through its starting point, leave the store as it was.
\<close>

lemma click_commits_nothing:
  "annotations (drag st down rect now []) = annotations st"
  by (simp add: drag_def startDrawingBox_def endDrawingBox_def)

lemma drag_zero_extent:
  assumes "moves \<noteq> []" and "last moves = (up, r)"
    and "clientX up - rect_left r = clientX down - rect_left rect
         \<or> clientY up - rect_top r = clientY down - rect_top rect"
  shows "annotations (drag st down rect now moves) = annotations st"
proof (cases "pdfContext st = None \<or> drawingContext st = None \<or> annotationContext st = None")
  case True
  then show ?thesis by (rule drag_not_ready)
next
  case False
  let ?s = "startDrawingBox down rect now st"
  from False have s: "isDrawing ?s" "drawingContext ?s \<noteq> None" "pdfContext ?s \<noteq> None"
    and b: "currentBox ?s = Some \<lparr>box_id = now,
             box_x = clientX down - rect_left rect,
             box_y = clientY down - rect_top rect,
             box_page = currentPage st,
             box_width = 0, box_height = 0, box_name = ''''\<rparr>"
    and a: "annotations ?s = annotations st"
    by (auto simp: startDrawingBox_def)
  show ?thesis
    unfolding drag_def foldl_updateDrawingBox [OF s b]
    using assms a by (auto simp: endDrawingBox_def)
qed

text \<open>
  \<^verbatim>\<open>mouseup\<close> followed by \<^verbatim>\<open>mouseout\<close> runs the handler twice; the second run does
  nothing.
\<close>

lemma endDrawingBox_twice: "endDrawingBox (endDrawingBox st) = endDrawingBox st"
  by (auto simp: endDrawingBox_def split: option.splits)

section \<open>Removal and the selection\<close>

text \<open>
  C2 (as the code has it): removing an annotation always clears the selection, whether or
  not the removed id was the selected one; the store keeps exactly the boxes with another
  id, in order.
\<close>

theorem removeAnnotation_clears_selection:
  "selectedAnnotationId (removeAnnotation i st) = None
   \<and> annotations (removeAnnotation i st) = filter (\<lambda>box. box_id box \<noteq> i) (annotations st)"
  by (simp add: removeAnnotation_def)

text \<open>
  C2 as stated fails: with boxes 1 and 2 in the store and box 2 selected, removing box 1
  does not leave the selection unchanged.
\<close>

theorem removeAnnotation_unselected_counterexample:
  "selectedAnnotationId
     (readyEditor\<lparr>annotations := [sampleBox 1 1 '''', sampleBox 2 1 ''''],
                   selectedAnnotationId := Some 2\<rparr>) = Some 2
   \<and> map box_id (annotations
        (removeAnnotation 1
          (readyEditor\<lparr>annotations := [sampleBox 1 1 '''', sampleBox 2 1 ''''],
                        selectedAnnotationId := Some 2\<rparr>))) = [2]
   \<and> selectedAnnotationId
        (removeAnnotation 1
          (readyEditor\<lparr>annotations := [sampleBox 1 1 '''', sampleBox 2 1 ''''],
                        selectedAnnotationId := Some 2\<rparr>)) = None"
  by (simp add: removeAnnotation_def readyEditor_def sampleBox_def)

section \<open>Keyboard control\<close>




















text \<open>
  Where the ids of the stored boxes are pairwise different, the boxes with the selected id
  are one box: the store changes at one position.
\<close>

lemma map_if_single:
  assumes "distinct (map box_id bs)" and "sel \<in> box_id ` set bs"
  shows "\<exists>k < length bs. box_id (bs ! k) = sel
     \<and> map (\<lambda>box. if box_id box = sel then f box else box) bs = bs[k := f (bs ! k)]"
  using assms
proof (induction bs)
  case Nil
  then show ?case by simp
next
  case (Cons b bs)
  show ?case
  proof (cases "box_id b = sel")
    case True
    with Cons.prems(1) have "\<forall>box \<in> set bs. box_id box \<noteq> sel"
      by (fastforce simp: image_iff)
    then have "map (\<lambda>box. if box_id box = sel then f box else box) bs = bs"
      by (induction bs) auto
    with True have "0 < length (b # bs) \<and> box_id ((b # bs) ! 0) = sel
      \<and> map (\<lambda>box. if box_id box = sel then f box else box) (b # bs)
          = (b # bs)[0 := f ((b # bs) ! 0)]"
      by simp
    then show ?thesis by blast
  next
    case False
    with Cons.prems have "distinct (map box_id bs)" "sel \<in> box_id ` set bs" by auto
    from Cons.IH [OF this] obtain k where k: "k < length bs" "box_id (bs ! k) = sel"
      "map (\<lambda>box. if box_id box = sel then f box else box) bs = bs[k := f (bs ! k)]"
      by blast
    with False have "Suc k < length (b # bs) \<and> box_id ((b # bs) ! Suc k) = sel
      \<and> map (\<lambda>box. if box_id box = sel then f box else box) (b # bs)
          = (b # bs)[Suc k := f ((b # bs) ! Suc k)]"
      by simp
    then show ?thesis by blast
  qed
qed

text \<open>A key that is not an arrow changes no box.\<close>

lemma handleKeyboardBoxControl_other_key:
  assumes "key ev \<notin> {''ArrowLeft'', ''ArrowRight'', ''ArrowUp'', ''ArrowDown''}"
  shows "handleKeyboardBoxControl ev st = st"
proof -
  have "map (\<lambda>box. if box_id box = sel then moveBox (key ev) a box else box) bs = bs"
    for sel a bs
    using assms by (induction bs) (auto simp: moveBox_def)
  then show ?thesis
    by (auto simp: handleKeyboardBoxControl_def Let_def split: option.splits)
qed

section \<open>The coordinate conversion\<close>

text \<open>
  On a canvas of positive width and height every component of the options of a field is
  finite and is the value of the formula in real arithmetic.
\<close>

lemma boxToPdfRect_positive_canvas:
  assumes "0 < width" and "0 < height"
  shows "boxToPdfRect box width height pdfWidth pdfHeight =
     \<lparr>opt_x = Fin (box_x box / real width * pdfWidth),
      opt_y = Fin ((pdfHeight - box_y box / real height * pdfHeight)
                   - box_height box / real height * pdfHeight),
      opt_width = Fin (box_width box / real width * pdfWidth),
      opt_height = Fin (box_height box / real height * pdfHeight),
      borderWidth = 0,
      backgroundColor = None\<rparr>"
  using assms by (simp add: boxToPdfRect_def toPdfSpace_def jsdiv_def)

text \<open>
  C9 (as the code has it): the conversion has no guard. For a positive canvas dimension
  the coordinate is the finite value of the formula; for a canvas dimension of zero the
  division by zero is carried out and the coordinate is \<^verbatim>\<open>Infinity\<close>, \<^verbatim>\<open>-Infinity\<close> or
  \<^verbatim>\<open>NaN\<close>.
\<close>

theorem toPdfSpace_unguarded:
  "(0 < width \<longrightarrow>
      fst (toPdfSpace canvasX canvasY width height pdfWidth pdfHeight)
        = Fin (canvasX / real width * pdfWidth))
   \<and> (0 < height \<longrightarrow>
      snd (toPdfSpace canvasX canvasY width height pdfWidth pdfHeight)
        = Fin (pdfHeight - canvasY / real height * pdfHeight))
   \<and> (width = 0 \<longrightarrow>
      \<not> isFinite (fst (toPdfSpace canvasX canvasY width height pdfWidth pdfHeight)))
   \<and> (height = 0 \<longrightarrow>
      \<not> isFinite (snd (toPdfSpace canvasX canvasY width height pdfWidth pdfHeight)))"
  by (simp add: toPdfSpace_def jsdiv_def)

theorem toPdfSpace_unguarded_witness:
  "toPdfSpace 90 120 900 1200 600 800 = (Fin 60, Fin 720)
   \<and> \<not> isFinite (fst (toPdfSpace 90 120 0 1200 600 800))
   \<and> \<not> isFinite (snd (toPdfSpace 90 120 900 0 600 800))"
  using toPdfSpace_unguarded [of 900 90 120 1200 600 800]
    toPdfSpace_unguarded [of 0 90 120 1200 600 800]
    toPdfSpace_unguarded [of 900 90 120 0 600 800]
  by (simp add: prod_eq_iff)

text \<open>
  C9 as stated fails: on a canvas of width and height zero the point (90, 120) is not
  converted to (0, 0) but to (\<^verbatim>\<open>Infinity\<close>, \<^verbatim>\<open>-Infinity\<close>), and the point (0, 0) to
  (\<^verbatim>\<open>NaN\<close>, \<^verbatim>\<open>NaN\<close>).
\<close>

theorem toPdfSpace_zero_canvas_counterexample:
  "toPdfSpace 90 120 0 0 600 800 = (PosInfinity, NegInfinity)
   \<and> toPdfSpace 0 0 0 0 600 800 = (NaN, NaN)"
  by (simp add: toPdfSpace_def jsdiv_def)

text \<open>
  In the export the non-finite values reach the options of the field: on a canvas of size
  zero a box at (90, 120) of width 180 and height 60 is placed at
  (\<^verbatim>\<open>Infinity\<close>, \<^verbatim>\<open>-Infinity\<close>).
\<close>

lemma boxToPdfRect_zero_canvas:
  "boxToPdfRect (sampleBox 12345 1 '''') 0 0 600 800 =
     \<lparr>opt_x = PosInfinity, opt_y = NegInfinity, opt_width = PosInfinity,
      opt_height = PosInfinity, borderWidth = 0, backgroundColor = None\<rparr>"
  by (simp add: boxToPdfRect_def toPdfSpace_def jsdiv_def sampleBox_def)

section \<open>Grouping by page\<close>

text \<open>One iteration of the grouping loop keeps the map a partition by page.\<close>

lemma groupStep_keeps:
  assumes "distinct (map fst m)" and "fst ` set m = box_page ` set bs"
    and "\<forall>(p, g) \<in> set m. g = filter (\<lambda>b. box_page b = p) bs"
  shows "distinct (map fst (groupStep m box))
     \<and> fst ` set (groupStep m box) = box_page ` set (bs @ [box])
     \<and> (\<forall>(p, g) \<in> set (groupStep m box). g = filter (\<lambda>b. box_page b = p) (bs @ [box]))"
proof (cases "map_of m (box_page box) = None")
  case True
  then have fresh: "box_page box \<notin> fst ` set m"
    by (simp add: map_of_eq_None_iff)
  with assms(2) have "box_page box \<notin> box_page ` set bs"
    by simp
  then have none: "filter (\<lambda>b. box_page b = box_page box) bs = []"
    by (fastforce simp: filter_empty_conv image_iff)
  have step: "groupStep m box = m @ [(box_page box, [box])]"
    using True by (simp add: groupStep_def)
  have d: "distinct (map fst (groupStep m box))"
    unfolding step using assms(1) fresh by simp
  have k: "fst ` set (groupStep m box) = box_page ` set (bs @ [box])"
    unfolding step using assms(2) by auto
  have g: "\<forall>(q, g) \<in> set (groupStep m box). g = filter (\<lambda>b. box_page b = q) (bs @ [box])"
  proof (clarify)
    fix q g
    assume "(q, g) \<in> set (groupStep m box)"
    then consider "(q, g) \<in> set m" | "q = box_page box" "g = [box]"
      unfolding step by auto
    then show "g = filter (\<lambda>b. box_page b = q) (bs @ [box])"
    proof cases
      case 1
      then have "q \<in> fst ` set m" by force
      with fresh have "box_page box \<noteq> q" by blast
      moreover from 1 assms(3) have "g = filter (\<lambda>b. box_page b = q) bs" by blast
      ultimately show ?thesis by simp
    next
      case 2
      then show ?thesis using none by simp
    qed
  qed
  from d k g show ?thesis by blast
next
  case False
  then have old: "box_page box \<in> fst ` set m"
    by (simp add: map_of_eq_None_iff)
  have step: "groupStep m box =
      map (\<lambda>(p, boxes). if p = box_page box then (p, boxes @ [box]) else (p, boxes)) m"
    using False by (simp add: groupStep_def)
  have keys: "map fst (groupStep m box) = map fst m"
    unfolding step by (induction m) auto
  have "distinct (map fst (groupStep m box))"
    using assms(1) by (simp add: keys)
  moreover have "fst ` set (groupStep m box) = box_page ` set (bs @ [box])"
  proof -
    have "fst ` set (groupStep m box) = set (map fst (groupStep m box))" by simp
    also have "\<dots> = fst ` set m" by (simp add: keys)
    finally show ?thesis using assms(2) old by auto
  qed
  moreover have
    "\<forall>(p, g) \<in> set (groupStep m box). g = filter (\<lambda>b. box_page b = p) (bs @ [box])"
    unfolding step using assms(3) by (fastforce split: if_splits)
  ultimately show ?thesis by blast
qed

lemma pageAnnotationMap_grouped:
  "distinct (map fst (pageAnnotationMap bs))
     \<and> fst ` set (pageAnnotationMap bs) = box_page ` set bs
     \<and> (\<forall>(p, g) \<in> set (pageAnnotationMap bs). g = filter (\<lambda>b. box_page b = p) bs)"
proof (induction bs rule: rev_induct)
  case Nil
  show ?case by (simp add: pageAnnotationMap_def)
next
  case (snoc box bs)
  have "pageAnnotationMap (bs @ [box]) = groupStep (pageAnnotationMap bs) box"
    by (simp add: pageAnnotationMap_def)
  with groupStep_keeps [of "pageAnnotationMap bs" bs box] snoc.IH show ?case
    by simp
qed

text \<open>\<^verbatim>\<open>Object.entries\<close> reorders the entries and neither drops nor repeats one.\<close>

lemma set_objectEntries: "set (objectEntries m) = set m"
  by (auto simp: objectEntries_def)

lemma distinct_objectEntries:
  assumes "distinct (map fst m)"
  shows "distinct (map fst (objectEntries m))"
proof -
  from assms have d: "distinct m" and i: "inj_on fst (set m)"
    by (simp_all add: distinct_map)
  have "distinct (objectEntries m)"
    using d by (auto simp: objectEntries_def)
  moreover have "inj_on fst (set (objectEntries m))"
    using i by (simp add: set_objectEntries)
  ultimately show ?thesis by (simp add: distinct_map)
qed

lemma map_fst_rebuild:
  assumes "\<forall>(p, g) \<in> set xs. g = f p"
  shows "xs = map (\<lambda>p. (p, f p)) (map fst xs)"
  using assms by (induction xs) auto

text \<open>
  C6: the export handles one batch per distinct page of the store: the pages of the
  batches are pairwise different and are exactly the pages that occur, and the batch of a
  page is the list of the annotations of that page, in the order of the store.
\<close>

theorem batches_partition:
  "distinct (map fst (batches boxes))
   \<and> set (map fst (batches boxes)) = box_page ` set boxes
   \<and> batches boxes =
       map (\<lambda>p. (p, filter (\<lambda>box. box_page box = p) boxes)) (map fst (batches boxes))"
proof -
  note g = pageAnnotationMap_grouped [of boxes]
  have 1: "distinct (map fst (batches boxes))"
    unfolding batches_def using g by (simp add: distinct_objectEntries)
  have 2: "set (map fst (batches boxes)) = box_page ` set boxes"
    unfolding batches_def using g by (simp add: set_objectEntries)
  have "\<forall>(p, g) \<in> set (batches boxes). g = filter (\<lambda>box. box_page box = p) boxes"
    unfolding batches_def set_objectEntries using g by blast
  then have 3: "batches boxes =
       map (\<lambda>p. (p, filter (\<lambda>box. box_page box = p) boxes)) (map fst (batches boxes))"
    by (rule map_fst_rebuild)
  from 1 2 3 show ?thesis by blast
qed

text \<open>Annotations A and C on page 3 and B on page 1, drawn in the order A, B, C.\<close>

theorem batches_partition_witness:
  "batches [sampleBox 1 3 ''A'', sampleBox 2 1 ''B'', sampleBox 3 3 ''C''] =
     [(1, [sampleBox 2 1 ''B'']), (3, [sampleBox 1 3 ''A'', sampleBox 3 3 ''C''])]
   \<and> length (batches [sampleBox 1 3 ''A'', sampleBox 2 1 ''B'', sampleBox 3 3 ''C'']) = 2"
  using batches_partition [of "[sampleBox 1 3 ''A'', sampleBox 2 1 ''B'', sampleBox 3 3 ''C'']"]
  by (simp add: batches_def pageAnnotationMap_def groupStep_def objectEntries_def sampleBox_def)

text \<open>Every stored box is in the batch of its page.\<close>

lemma stored_box_in_batches:
  assumes "box \<in> set boxes"
  shows "\<exists>before xs ys after.
           batches boxes = before @ (box_page box, xs @ box # ys) # after"
proof -
  note g = pageAnnotationMap_grouped [of boxes]
  from g have "fst ` set (batches boxes) = box_page ` set boxes"
    by (simp add: batches_def set_objectEntries)
  with assms have "box_page box \<in> fst ` set (batches boxes)" by blast
  then obtain grp where grp: "(box_page box, grp) \<in> set (batches boxes)" by force
  with g have "grp = filter (\<lambda>b. box_page b = box_page box) boxes"
    unfolding batches_def set_objectEntries by blast
  with assms have "box \<in> set grp" by simp
  then obtain xs ys where "grp = xs @ box # ys"
    by (meson split_list)
  moreover from grp obtain before after
    where "batches boxes = before @ (box_page box, grp) # after"
    by (meson split_list)
  ultimately show ?thesis by blast
qed

section \<open>Field names\<close>

text \<open>
  The numeral printed for a number is its decimal numeral: a string of digits with the
  value of the number and no leading zero, after a minus sign for a negative number.
  \<^verbatim>\<open>parseInt\<close> therefore recovers the page number from a key of the map.
\<close>

lemma digit_char:
  assumes "d < 10"
  shows "(of_char (''0123456789'' ! d) :: nat) = 48 + d"
proof -
  from assms have "d \<in> {0, 1, 2, 3, 4, 5, 6, 7, 8, 9}" by auto
  then show ?thesis by auto
qed

lemma natToString_digits: "list_all isDigit (natToString n) \<and> natToString n \<noteq> []"
proof (induction n rule: natToString.induct)
  case (1 n)
  show ?case
  proof (cases "n < 10")
    case True
    then show ?thesis
      by (simp add: natToString.simps [of n] isDigit_def digit_char)
  next
    case False
    with 1 show ?thesis
      by (simp add: natToString.simps [of n] isDigit_def digit_char)
  qed
qed

lemma natToString_value:
  "foldl (\<lambda>n c. 10 * n + (of_char c - 48)) 0 (natToString n) = n"
proof (induction n rule: natToString.induct)
  case (1 n)
  show ?case
  proof (cases "n < 10")
    case True
    then show ?thesis
      by (simp add: natToString.simps [of n] digit_char)
  next
    case False
    with 1 show ?thesis
      by (simp add: natToString.simps [of n] digit_char)
  qed
qed

lemma decimalValue_natToString: "decimalValue (natToString n) = Some n"
  using natToString_digits [of n] by (simp add: decimalValue_def natToString_value)

lemma natToString_leading:
  assumes "0 < n"
  shows "hd (natToString n) \<noteq> CHR ''0''"
  using assms
proof (induction n rule: natToString.induct)
  case (1 n)
  show ?case
  proof (cases "n < 10")
    case True
    have v: "(of_char (''0123456789'' ! n) :: nat) = 48 + n"
      using True by (rule digit_char)
    have "''0123456789'' ! n \<noteq> CHR ''0''"
    proof
      assume e: "''0123456789'' ! n = CHR ''0''"
      have "(48::nat) + n = of_char (CHR ''0'')"
        unfolding v [symmetric] e by (rule refl)
      with "1.prems" show False by simp
    qed
    with True show ?thesis
      by (simp only: natToString.simps [of n] if_True list.sel not_False_eq_True)
  next
    case False
    then have "0 < n div 10" by simp
    with 1 False have "hd (natToString (n div 10)) \<noteq> CHR ''0''" by simp
    with False show ?thesis
      using natToString_digits [of "n div 10"]
      by (simp add: natToString.simps [of n])
  qed
qed

lemma natToString_canonical:
  "natToString n = ''0'' \<or> hd (natToString n) \<noteq> CHR ''0''"
proof (cases "n = 0")
  case True
  then show ?thesis by (simp add: natToString.simps [of 0])
next
  case False
  then show ?thesis by (simp add: natToString_leading)
qed

lemma numberToString_sign:
  "numberToString i = (if i < 0 then ''-'' else '''') @ natToString (nat \<bar>i\<bar>)"
  by (simp add: numberToString_def)

lemma parseInt_natToString: "parseInt (natToString n) = Some n"
proof -
  have all: "takeWhile isDigit (natToString n) = natToString n"
    using natToString_digits [of n] by (simp add: takeWhile_eq_all_conv list_all_iff)
  have "natToString n \<noteq> []"
    using natToString_digits [of n] by simp
  then show ?thesis
    unfolding parseInt_def Let_def all by (simp add: natToString_value)
qed

lemma natToString_inj: "natToString m = natToString n \<Longrightarrow> m = n"
  by (metis parseInt_natToString option.inject)

section \<open>The export as a whole\<close>

text \<open>
  Both loops stop at the first operation that throws: the boxes and pages after it are not
  visited, whatever was placed before.
\<close>

lemma placeBoxes_append:
  "placeBoxes lib w h page pw ph (xs @ ys) doc =
     (case placeBoxes lib w h page pw ph xs doc of
        Inl e \<Rightarrow> Inl e
      | Inr doc1 \<Rightarrow> placeBoxes lib w h page pw ph ys doc1)"
  by (induction xs arbitrary: doc) (auto split: sum.splits)

lemma placePages_append:
  "placePages lib w h (xs @ ys) doc =
     (case placePages lib w h xs doc of
        Inl e \<Rightarrow> Inl e
      | Inr doc1 \<Rightarrow> placePages lib w h ys doc1)"
  by (induction xs arbitrary: doc) (auto split: sum.splits)

text \<open>
  So a throw of any single library call inside the loops, after any number of boxes and
  pages that went through, is the result of the whole placement.
\<close>

lemma placeBoxes_createTextField_throws:
  assumes "placeBoxes lib w h page pw ph xs doc = Inr doc1"
    and "createTextField lib doc1 (fieldName box) = Inl e"
  shows "placeBoxes lib w h page pw ph (xs @ box # ys) doc = Inl e"
  using assms by (simp add: placeBoxes_append)

lemma placeBoxes_addToPage_throws:
  assumes "placeBoxes lib w h page pw ph xs doc = Inr doc1"
    and "createTextField lib doc1 (fieldName box) = Inr (textField, doc2)"
    and "addToPage lib doc2 textField page (boxToPdfRect box w h pw ph) = Inl e"
  shows "placeBoxes lib w h page pw ph (xs @ box # ys) doc = Inl e"
  using assms by (simp add: placeBoxes_append)

lemma placePages_getPage_throws:
  assumes "placePages lib w h xs doc = Inr doc1"
    and "getPage lib doc1 (int pageNum - 1) = Inl e"
  shows "placePages lib w h (xs @ (pageNum, boxes) # ys) doc = Inl e"
  using assms by (simp add: placePages_append)

lemma placePages_getSize_throws:
  assumes "placePages lib w h xs doc = Inr doc1"
    and "getPage lib doc1 (int pageNum - 1) = Inr page"
    and "getSize lib doc1 page = Inl e"
  shows "placePages lib w h (xs @ (pageNum, boxes) # ys) doc = Inl e"
  using assms by (simp add: placePages_append)

lemma placePages_placeBoxes_throws:
  assumes "placePages lib w h xs doc = Inr doc1"
    and "getPage lib doc1 (int pageNum - 1) = Inr page"
    and "getSize lib doc1 page = Inr (pw, ph)"
    and "placeBoxes lib w h page pw ph boxes doc1 = Inl e"
  shows "placePages lib w h (xs @ (pageNum, boxes) # ys) doc = Inl e"
  using assms by (simp add: placePages_append)

text \<open>
  C5: for every stored box, with a canvas of positive width and height, the export reaches
  the box in the batch of its page and hands \<^verbatim>\<open>addToPage\<close> the rectangle
  \<open>x = box.x / canvasWidth * W\<close>, \<open>y = (H - box.y / canvasHeight * H) - pdfBoxHeight\<close>,
  \<open>width = box.width / canvasWidth * W\<close> and \<open>height = pdfBoxHeight\<close> with
  \<open>pdfBoxHeight = box.height / canvasHeight * H\<close>, all finite, where \<open>W\<close> by \<open>H\<close> is the
  size the library reports for the page with index \<open>page - 1\<close> and the canvas size is that
  of the drawing canvas. The bytes are read and loaded first; what was placed before the
  box and what follows it is the rest of the two loops.
\<close>

theorem export_rectangle:
  assumes "0 < canvasWidth st" and "0 < canvasHeight st"
    and "getData proxy = Inr pdfBytes" and "load lib pdfBytes = Inr pdfDoc"
    and "box \<in> set (annotations st)"
  shows "\<exists>before xs ys after.
     batches (annotations st) = before @ (box_page box, xs @ box # ys) # after
     \<and> exportPdf lib st proxy =
     (case placePages lib (canvasWidth st) (canvasHeight st) before pdfDoc of
        Inl e \<Rightarrow> Inl e
      | Inr pdfDoc0 \<Rightarrow>
     (case getPage lib pdfDoc0 (int (box_page box) - 1) of
        Inl e \<Rightarrow> Inl e
      | Inr page \<Rightarrow>
     (case getSize lib pdfDoc0 page of
        Inl e \<Rightarrow> Inl e
      | Inr (pdfWidth, pdfHeight) \<Rightarrow>
     (case placeBoxes lib (canvasWidth st) (canvasHeight st) page pdfWidth pdfHeight xs
             pdfDoc0 of
        Inl e \<Rightarrow> Inl e
      | Inr pdfDoc1 \<Rightarrow>
     (case createTextField lib pdfDoc1 (fieldName box) of
        Inl e \<Rightarrow> Inl e
      | Inr (textField, pdfDoc2) \<Rightarrow>
     (case addToPage lib pdfDoc2 textField page
             \<lparr>opt_x = Fin (box_x box / real (canvasWidth st) * pdfWidth),
              opt_y = Fin ((pdfHeight - box_y box / real (canvasHeight st) * pdfHeight)
                           - box_height box / real (canvasHeight st) * pdfHeight),
              opt_width = Fin (box_width box / real (canvasWidth st) * pdfWidth),
              opt_height = Fin (box_height box / real (canvasHeight st) * pdfHeight),
              borderWidth = 0,
              backgroundColor = None\<rparr> of
        Inl e \<Rightarrow> Inl e
      | Inr pdfDoc3 \<Rightarrow>
     (case placeBoxes lib (canvasWidth st) (canvasHeight st) page pdfWidth pdfHeight ys
             pdfDoc3 of
        Inl e \<Rightarrow> Inl e
      | Inr pdfDoc4 \<Rightarrow>
     (case placePages lib (canvasWidth st) (canvasHeight st) after pdfDoc4 of
        Inl e \<Rightarrow> Inl e
      | Inr pdfDoc5 \<Rightarrow> save lib pdfDoc5))))))))"
proof -
  from stored_box_in_batches [OF assms(5)] obtain before xs ys after
    where split: "batches (annotations st) = before @ (box_page box, xs @ box # ys) # after"
    by blast
  then have entries: "objectEntries (pageAnnotationMap (annotations st)) =
      before @ (box_page box, xs @ box # ys) # after"
    by (simp add: batches_def)
  have "exportPdf lib st proxy =
     (case placePages lib (canvasWidth st) (canvasHeight st) before pdfDoc of
        Inl e \<Rightarrow> Inl e
      | Inr pdfDoc0 \<Rightarrow>
     (case getPage lib pdfDoc0 (int (box_page box) - 1) of
        Inl e \<Rightarrow> Inl e
      | Inr page \<Rightarrow>
     (case getSize lib pdfDoc0 page of
        Inl e \<Rightarrow> Inl e
      | Inr (pdfWidth, pdfHeight) \<Rightarrow>
     (case placeBoxes lib (canvasWidth st) (canvasHeight st) page pdfWidth pdfHeight xs
             pdfDoc0 of
        Inl e \<Rightarrow> Inl e
      | Inr pdfDoc1 \<Rightarrow>
     (case createTextField lib pdfDoc1 (fieldName box) of
        Inl e \<Rightarrow> Inl e
      | Inr (textField, pdfDoc2) \<Rightarrow>
     (case addToPage lib pdfDoc2 textField page
             \<lparr>opt_x = Fin (box_x box / real (canvasWidth st) * pdfWidth),
              opt_y = Fin ((pdfHeight - box_y box / real (canvasHeight st) * pdfHeight)
                           - box_height box / real (canvasHeight st) * pdfHeight),
              opt_width = Fin (box_width box / real (canvasWidth st) * pdfWidth),
              opt_height = Fin (box_height box / real (canvasHeight st) * pdfHeight),
              borderWidth = 0,
              backgroundColor = None\<rparr> of
        Inl e \<Rightarrow> Inl e
      | Inr pdfDoc3 \<Rightarrow>
     (case placeBoxes lib (canvasWidth st) (canvasHeight st) page pdfWidth pdfHeight ys
             pdfDoc3 of
        Inl e \<Rightarrow> Inl e
      | Inr pdfDoc4 \<Rightarrow>
     (case placePages lib (canvasWidth st) (canvasHeight st) after pdfDoc4 of
        Inl e \<Rightarrow> Inl e
      | Inr pdfDoc5 \<Rightarrow> save lib pdfDoc5))))))))"
    unfolding exportPdf_def entries
    by (simp add: assms(3,4) placePages_append placeBoxes_append
        boxToPdfRect_positive_canvas [OF assms(1,2)] split: sum.splits prod.splits)
  with split show ?thesis by blast
qed

text \<open>
  The scenario of the specification: a 600 by 800 page on a 900 by 1200 canvas, a box at
  (90, 120) of width 180 and height 60. The export goes through, and the field is placed
  on page index 0 at \<open>x = 60\<close>, \<open>y = 680\<close> with width 120 and height 40.
\<close>

theorem export_rectangle_witness:
  "exportPdf sampleLib (readyEditor\<lparr>annotations := [sampleBox 12345 1 '''']\<rparr>) sampleDocument
     = Inr [1]
   \<and> placePages sampleLib 900 1200 (batches [sampleBox 12345 1 ''''])
     \<lparr>doc_pages = [(600, 800), (600, 800), (600, 800)], doc_fields = []\<rparr> =
   Inr \<lparr>doc_pages = [(600, 800), (600, 800), (600, 800)],
        doc_fields =
          [(''Field_12345'', 0, \<lparr>opt_x = Fin 60, opt_y = Fin 680, opt_width = Fin 120,
              opt_height = Fin 40, borderWidth = 0, backgroundColor = None\<rparr>)]\<rparr>"
  using export_rectangle [of "readyEditor\<lparr>annotations := [sampleBox 12345 1 '''']\<rparr>"
      sampleDocument "[37, 80, 68, 70]" sampleLib
      "\<lparr>doc_pages = [(600, 800), (600, 800), (600, 800)], doc_fields = []\<rparr>"
      "sampleBox 12345 1 ''''"]
  by (simp add: readyEditor_def sampleDocument_def exportPdf_def batches_def
      pageAnnotationMap_def groupStep_def objectEntries_def sampleBox_def sampleLib_def
      fieldName_def numberToString_def natToString.simps boxToPdfRect_def toPdfSpace_def
      jsdiv_def)

text \<open>
  C7: the name of the field of an annotation is the annotation's name when that is not
  empty. When it is empty, the name is \<^verbatim>\<open>Field_\<close> followed by the decimal numeral of the
  id: a minus sign if the id is negative, then a string of digits whose value is the
  magnitude of the id and that has no leading zero. This name is what the export hands
  \<^verbatim>\<open>createTextField\<close> for every stored box, once the bytes are read and loaded.
\<close>

theorem fieldName_spec:
  "(box_name box \<noteq> '''' \<longrightarrow> fieldName box = box_name box)
   \<and> (box_name box = '''' \<longrightarrow>
        (\<exists>digits. fieldName box = ''Field_'' @ (if box_id box < 0 then ''-'' else '''') @ digits
           \<and> decimalValue digits = Some (nat \<bar>box_id box\<bar>)
           \<and> (digits = ''0'' \<or> hd digits \<noteq> CHR ''0'')))
   \<and> (getData proxy = Inr pdfBytes \<and> load lib pdfBytes = Inr pdfDoc
        \<and> box \<in> set (annotations st) \<longrightarrow>
       (\<exists>before xs ys after.
          batches (annotations st) = before @ (box_page box, xs @ box # ys) # after
          \<and> exportPdf lib st proxy =
          (case placePages lib (canvasWidth st) (canvasHeight st) before pdfDoc of
             Inl e \<Rightarrow> Inl e
           | Inr pdfDoc0 \<Rightarrow>
          (case getPage lib pdfDoc0 (int (box_page box) - 1) of
             Inl e \<Rightarrow> Inl e
           | Inr page \<Rightarrow>
          (case getSize lib pdfDoc0 page of
             Inl e \<Rightarrow> Inl e
           | Inr (pdfWidth, pdfHeight) \<Rightarrow>
          (case placeBoxes lib (canvasWidth st) (canvasHeight st) page pdfWidth pdfHeight xs
                  pdfDoc0 of
             Inl e \<Rightarrow> Inl e
           | Inr pdfDoc1 \<Rightarrow>
          (case createTextField lib pdfDoc1 (fieldName box) of
             Inl e \<Rightarrow> Inl e
           | Inr (textField, pdfDoc2) \<Rightarrow>
          (case addToPage lib pdfDoc2 textField page
                  (boxToPdfRect box (canvasWidth st) (canvasHeight st) pdfWidth pdfHeight) of
             Inl e \<Rightarrow> Inl e
           | Inr pdfDoc3 \<Rightarrow>
          (case placeBoxes lib (canvasWidth st) (canvasHeight st) page pdfWidth pdfHeight ys
                  pdfDoc3 of
             Inl e \<Rightarrow> Inl e
           | Inr pdfDoc4 \<Rightarrow>
          (case placePages lib (canvasWidth st) (canvasHeight st) after pdfDoc4 of
             Inl e \<Rightarrow> Inl e
           | Inr pdfDoc5 \<Rightarrow> save lib pdfDoc5))))))))))"
proof (intro conjI impI)
  assume "box_name box \<noteq> ''''"
  then show "fieldName box = box_name box" by (simp add: fieldName_def)
next
  assume empty: "box_name box = ''''"
  let ?digits = "natToString (nat \<bar>box_id box\<bar>)"
  have "fieldName box = ''Field_'' @ (if box_id box < 0 then ''-'' else '''') @ ?digits"
    using empty by (simp add: fieldName_def numberToString_sign)
  moreover have "decimalValue ?digits = Some (nat \<bar>box_id box\<bar>)"
    by (rule decimalValue_natToString)
  moreover have "?digits = ''0'' \<or> hd ?digits \<noteq> CHR ''0''"
    by (rule natToString_canonical)
  ultimately show "\<exists>digits. fieldName box =
      ''Field_'' @ (if box_id box < 0 then ''-'' else '''') @ digits
           \<and> decimalValue digits = Some (nat \<bar>box_id box\<bar>)
           \<and> (digits = ''0'' \<or> hd digits \<noteq> CHR ''0'')"
    by blast
next
  assume a: "getData proxy = Inr pdfBytes \<and> load lib pdfBytes = Inr pdfDoc
        \<and> box \<in> set (annotations st)"
  then have read: "getData proxy = Inr pdfBytes" and loaded: "load lib pdfBytes = Inr pdfDoc"
    and stored: "box \<in> set (annotations st)" by simp_all
  from stored_box_in_batches [OF stored] obtain before xs ys after
    where split: "batches (annotations st) = before @ (box_page box, xs @ box # ys) # after"
    by blast
  then have entries: "objectEntries (pageAnnotationMap (annotations st)) =
      before @ (box_page box, xs @ box # ys) # after"
    by (simp add: batches_def)
  have "exportPdf lib st proxy =
          (case placePages lib (canvasWidth st) (canvasHeight st) before pdfDoc of
             Inl e \<Rightarrow> Inl e
           | Inr pdfDoc0 \<Rightarrow>
          (case getPage lib pdfDoc0 (int (box_page box) - 1) of
             Inl e \<Rightarrow> Inl e
           | Inr page \<Rightarrow>
          (case getSize lib pdfDoc0 page of
             Inl e \<Rightarrow> Inl e
           | Inr (pdfWidth, pdfHeight) \<Rightarrow>
          (case placeBoxes lib (canvasWidth st) (canvasHeight st) page pdfWidth pdfHeight xs
                  pdfDoc0 of
             Inl e \<Rightarrow> Inl e
           | Inr pdfDoc1 \<Rightarrow>
          (case createTextField lib pdfDoc1 (fieldName box) of
             Inl e \<Rightarrow> Inl e
           | Inr (textField, pdfDoc2) \<Rightarrow>
          (case addToPage lib pdfDoc2 textField page
                  (boxToPdfRect box (canvasWidth st) (canvasHeight st) pdfWidth pdfHeight) of
             Inl e \<Rightarrow> Inl e
           | Inr pdfDoc3 \<Rightarrow>
          (case placeBoxes lib (canvasWidth st) (canvasHeight st) page pdfWidth pdfHeight ys
                  pdfDoc3 of
             Inl e \<Rightarrow> Inl e
           | Inr pdfDoc4 \<Rightarrow>
          (case placePages lib (canvasWidth st) (canvasHeight st) after pdfDoc4 of
             Inl e \<Rightarrow> Inl e
           | Inr pdfDoc5 \<Rightarrow> save lib pdfDoc5))))))))"
    unfolding exportPdf_def entries
    by (simp add: read loaded placePages_append placeBoxes_append
        split: sum.splits prod.splits)
  with split show "\<exists>before xs ys after.
          batches (annotations st) = before @ (box_page box, xs @ box # ys) # after
          \<and> exportPdf lib st proxy =
          (case placePages lib (canvasWidth st) (canvasHeight st) before pdfDoc of
             Inl e \<Rightarrow> Inl e
           | Inr pdfDoc0 \<Rightarrow>
          (case getPage lib pdfDoc0 (int (box_page box) - 1) of
             Inl e \<Rightarrow> Inl e
           | Inr page \<Rightarrow>
          (case getSize lib pdfDoc0 page of
             Inl e \<Rightarrow> Inl e
           | Inr (pdfWidth, pdfHeight) \<Rightarrow>
          (case placeBoxes lib (canvasWidth st) (canvasHeight st) page pdfWidth pdfHeight xs
                  pdfDoc0 of
             Inl e \<Rightarrow> Inl e
           | Inr pdfDoc1 \<Rightarrow>
          (case createTextField lib pdfDoc1 (fieldName box) of
             Inl e \<Rightarrow> Inl e
           | Inr (textField, pdfDoc2) \<Rightarrow>
          (case addToPage lib pdfDoc2 textField page
                  (boxToPdfRect box (canvasWidth st) (canvasHeight st) pdfWidth pdfHeight) of
             Inl e \<Rightarrow> Inl e
           | Inr pdfDoc3 \<Rightarrow>
          (case placeBoxes lib (canvasWidth st) (canvasHeight st) page pdfWidth pdfHeight ys
                  pdfDoc3 of
             Inl e \<Rightarrow> Inl e
           | Inr pdfDoc4 \<Rightarrow>
          (case placePages lib (canvasWidth st) (canvasHeight st) after pdfDoc4 of
             Inl e \<Rightarrow> Inl e
           | Inr pdfDoc5 \<Rightarrow> save lib pdfDoc5))))))))"
    by blast
qed

text \<open>
  An annotation named \<^verbatim>\<open>Name\<close> and an unnamed one with id 12345, both on page 1: the
  fields the export creates are named \<^verbatim>\<open>Name\<close> and \<^verbatim>\<open>Field_12345\<close>.
\<close>

theorem fieldName_spec_witness:
  "fieldName (sampleBox 1 1 ''Name'') = ''Name''
   \<and> fieldName (sampleBox 12345 1 '''') = ''Field_12345''
   \<and> exportPdf sampleLib
        (readyEditor\<lparr>annotations := [sampleBox 1 1 ''Name'', sampleBox 12345 1 '''']\<rparr>)
        sampleDocument = Inr [1, 1]
   \<and> map fst
        (case placePages sampleLib 900 1200
                (batches [sampleBox 1 1 ''Name'', sampleBox 12345 1 ''''])
                \<lparr>doc_pages = [(600, 800), (600, 800), (600, 800)], doc_fields = []\<rparr> of
           Inl e \<Rightarrow> []
         | Inr pdfDoc \<Rightarrow> doc_fields pdfDoc)
      = [''Name'', ''Field_12345'']"
  using fieldName_spec [of "sampleBox 1 1 ''Name''" sampleDocument "[37, 80, 68, 70]" sampleLib
      "\<lparr>doc_pages = [(600, 800), (600, 800), (600, 800)], doc_fields = []\<rparr>"
      "readyEditor\<lparr>annotations := [sampleBox 1 1 ''Name'', sampleBox 12345 1 '''']\<rparr>"]
    fieldName_spec [of "sampleBox 12345 1 ''''" sampleDocument "[37, 80, 68, 70]" sampleLib
      "\<lparr>doc_pages = [(600, 800), (600, 800), (600, 800)], doc_fields = []\<rparr>"
      "readyEditor\<lparr>annotations := [sampleBox 1 1 ''Name'', sampleBox 12345 1 '''']\<rparr>"]
  by (simp add: readyEditor_def sampleDocument_def exportPdf_def batches_def
      pageAnnotationMap_def groupStep_def objectEntries_def sampleBox_def sampleLib_def
      fieldName_def numberToString_def natToString.simps)

text \<open>
  C8: when reading the original bytes, loading them, placing the fields or saving throws,
  the export logs the error and shows one alert; nothing is downloaded, and the editor
  state, the annotations in it, is as before.
\<close>

theorem export_failure_aborts:
  assumes "pdfDocument st = Some proxy"
    and "getData proxy = Inl e
       \<or> (\<exists>pdfBytes. getData proxy = Inr pdfBytes \<and> load lib pdfBytes = Inl e)
       \<or> (\<exists>pdfBytes pdfDoc. getData proxy = Inr pdfBytes \<and> load lib pdfBytes = Inr pdfDoc
            \<and> placePages lib (canvasWidth st) (canvasHeight st) (batches (annotations st)) pdfDoc
                = Inl e)
       \<or> (\<exists>pdfBytes pdfDoc pdfDoc1. getData proxy = Inr pdfBytes
            \<and> load lib pdfBytes = Inr pdfDoc
            \<and> placePages lib (canvasWidth st) (canvasHeight st) (batches (annotations st)) pdfDoc
                = Inr pdfDoc1
            \<and> save lib pdfDoc1 = Inl e)"
  shows "addFieldsAndDownload lib st =
           (st, [ConsoleError ''Error creating PDF:'' e,
                 Alert ''Error creating PDF. Check console for details.''])"
proof -
  from assms(2) have "exportPdf lib st proxy = Inl e"
    by (auto simp: exportPdf_def batches_def)
  with assms(1) show ?thesis
    by (simp add: addFieldsAndDownload_def)
qed

text \<open>
  Two annotations with the same name: the first field is created and placed, creating the
  second throws, and the export ends with the alert and no download.
\<close>

theorem export_failure_aborts_witness:
  "addFieldsAndDownload sampleLib
     (readyEditor\<lparr>annotations := [sampleBox 1 1 ''Name'', sampleBox 2 3 ''Name'']\<rparr>) =
     (readyEditor\<lparr>annotations := [sampleBox 1 1 ''Name'', sampleBox 2 3 ''Name'']\<rparr>,
      [ConsoleError ''Error creating PDF:'' (Exn ''a field with this name exists''),
       Alert ''Error creating PDF. Check console for details.''])"
  using export_failure_aborts
    [of "readyEditor\<lparr>annotations := [sampleBox 1 1 ''Name'', sampleBox 2 3 ''Name'']\<rparr>"
        sampleDocument "Exn ''a field with this name exists''" sampleLib]
  by (simp add: readyEditor_def sampleDocument_def sampleLib_def batches_def
      pageAnnotationMap_def groupStep_def objectEntries_def fieldName_def sampleBox_def)

text \<open>
  An export has one of three outcomes and never writes the editor state: nothing at all,
  the logged error with the alert, or the download alone.
\<close>

lemma addFieldsAndDownload_cases:
  "snd (addFieldsAndDownload lib st) = []
   \<or> (\<exists>e. snd (addFieldsAndDownload lib st) =
        [ConsoleError ''Error creating PDF:'' e,
         Alert ''Error creating PDF. Check console for details.''])
   \<or> (\<exists>modifiedPdfBytes.
        snd (addFieldsAndDownload lib st) = [Download ''annotated.pdf'' modifiedPdfBytes])"
  by (auto simp: addFieldsAndDownload_def split: option.splits sum.splits)

lemma addFieldsAndDownload_state: "fst (addFieldsAndDownload lib st) = st"
  by (auto simp: addFieldsAndDownload_def split: option.splits sum.splits)

text \<open>
  C10: without a loaded document the export returns at once: no effect at all (no log, no
  alert, no download) and the editor state as it was.
\<close>

theorem export_without_document:
  assumes "pdfDocument st = None"
  shows "addFieldsAndDownload lib st = (st, [])"
  using assms by (simp add: addFieldsAndDownload_def)

theorem export_without_document_witness:
  "addFieldsAndDownload sampleLib
     (readyEditor\<lparr>pdfDocument := None, annotations := [sampleBox 1 1 '''']\<rparr>)
   = (readyEditor\<lparr>pdfDocument := None, annotations := [sampleBox 1 1 '''']\<rparr>, [])"
  using export_without_document
    [of "readyEditor\<lparr>pdfDocument := None, annotations := [sampleBox 1 1 '''']\<rparr>" sampleLib]
  by simp

text \<open>
  A complete run on the stand-in library: an unnamed box with id 12345 on page 3 and a box
  named \<^verbatim>\<open>Name\<close> on page 1. Page 1 is handled first; the fields are placed on the page
  indices 0 and 2 with the rectangle of the scenario above, and the result is downloaded.
\<close>

lemma placePages_run:
  "placePages sampleLib 900 1200 (batches [sampleBox 12345 3 '''', sampleBox 2 1 ''Name''])
     \<lparr>doc_pages = [(600, 800), (600, 800), (600, 800)], doc_fields = []\<rparr> =
   Inr \<lparr>doc_pages = [(600, 800), (600, 800), (600, 800)],
        doc_fields =
          [(''Name'', 0, \<lparr>opt_x = Fin 60, opt_y = Fin 680, opt_width = Fin 120,
              opt_height = Fin 40, borderWidth = 0, backgroundColor = None\<rparr>),
           (''Field_12345'', 2, \<lparr>opt_x = Fin 60, opt_y = Fin 680, opt_width = Fin 120,
              opt_height = Fin 40, borderWidth = 0, backgroundColor = None\<rparr>)]\<rparr>"
  by (simp add: batches_def sampleLib_def pageAnnotationMap_def groupStep_def objectEntries_def
      fieldName_def sampleBox_def numberToString_def natToString.simps boxToPdfRect_def
      toPdfSpace_def jsdiv_def)

lemma addFieldsAndDownload_run:
  "addFieldsAndDownload sampleLib
     (readyEditor\<lparr>annotations := [sampleBox 12345 3 '''', sampleBox 2 1 ''Name'']\<rparr>) =
     (readyEditor\<lparr>annotations := [sampleBox 12345 3 '''', sampleBox 2 1 ''Name'']\<rparr>,
      [Download ''annotated.pdf'' [1, 1]])"
  by (simp add: addFieldsAndDownload_def exportPdf_def readyEditor_def sampleDocument_def
      sampleLib_def pageAnnotationMap_def groupStep_def objectEntries_def fieldName_def
      sampleBox_def numberToString_def natToString.simps)

end
